theory Spec2Isabelle
  imports Main "HOL-Library.Sublist" "HOL-Library.AList"
begin

section \<open>The demonstration server: data model\<close>

text \<open>
  The server of \<^verbatim>\<open>demo.py\<close> keeps one piece of process-wide state, the deque
  \<^verbatim>\<open>recent_data_files = deque(maxlen=20)\<close>. Its handlers also touch the file system
  (a temporary directory) and draw random identifiers. The model threads a record of
  that state through every operation, and returns what Python raises as a value.
\<close>

subsection \<open>Exceptions\<close>

datatype py_exception =
    CalledProcessError int
  | OSError
  | IOError
  | ValueError
  | KeyError string
  | TypeError
  | GeometryError
  | XMLSyntaxError
  | NotFound nat

subsection \<open>The cached file\<close>

text \<open>
  The dictionary built at lines 56-60 of \<^verbatim>\<open>demo.py\<close>, with its three keys
  \<^verbatim>\<open>'uuid'\<close>, \<^verbatim>\<open>'bytes'\<close> and \<^verbatim>\<open>'mime-type'\<close>.
\<close>

record data_file =
  uuid :: string
  bytes :: string
  mime_type :: string

subsection \<open>The file system and the application state\<close>

datatype fs_node = Dir | File string

type_synonym filesystem = "string \<rightharpoonup> fs_node"

record app_state =
  recent_data_files :: "data_file list"
  files :: filesystem
  uuid_calls :: nat

subsection \<open>The bounded deque\<close>

text \<open>
  \<^verbatim>\<open>collections.deque(maxlen=n).append(x)\<close> adds \<open>x\<close> on the right and, when the
  deque is then longer than \<open>maxlen\<close>, drops one element on the left. The list holds
  the deque from left (oldest) to right (newest).
\<close>

definition deque_append :: "nat \<Rightarrow> 'a list \<Rightarrow> 'a \<Rightarrow> 'a list" where
  "deque_append maxlen d x = (let d' = d @ [x] in if maxlen < length d' then tl d' else d')"

definition maxlen :: nat where
  "maxlen = 20"

text \<open>Line 19: the deque starts empty.\<close>

definition init_state :: "filesystem \<Rightarrow> app_state" where
  "init_state fs = \<lparr>recent_data_files = [], files = fs, uuid_calls = 0\<rparr>"

text \<open>Line 61: \<^verbatim>\<open>recent_data_files.append(data_file)\<close>.\<close>

definition recent_data_files_append :: "data_file \<Rightarrow> app_state \<Rightarrow> app_state" where
  "recent_data_files_append e s =
     s\<lparr>recent_data_files := deque_append maxlen (recent_data_files s) e\<rparr>"

subsection \<open>The retrieval route\<close>

text \<open>
  Lines 87-93. The route calls \<^verbatim>\<open>flask.Response(data_file['bytes'])\<close>: the body is
  the only argument, no \<^verbatim>\<open>mimetype\<close> is passed. The record holds the arguments of
  the constructor; \<open>mimetype = None\<close> is the omitted argument, for which the framework
  takes its own default.
\<close>

record flask_response =
  response :: string
  mimetype :: "string option"

definition Response :: "string \<Rightarrow> flask_response" where
  "Response body = \<lparr>response = body, mimetype = None\<rparr>"

text \<open>
  The \<^verbatim>\<open>for ... else\<close> loop over the deque: the first entry whose
  \<^verbatim>\<open>'uuid'\<close> equals the argument is returned; when the loop runs out,
  \<^verbatim>\<open>flask.abort(404)\<close> raises.
\<close>

fun datafile_loop :: "data_file list \<Rightarrow> string \<Rightarrow> py_exception + flask_response" where
  "datafile_loop [] u = Inl (NotFound 404)"
| "datafile_loop (data_file # rest) u =
     (if uuid data_file = u then Inr (Response (bytes data_file))
      else datafile_loop rest u)"

definition datafile :: "string \<Rightarrow> app_state \<Rightarrow> (py_exception + flask_response) \<times> app_state" where
  "datafile u s = (datafile_loop (recent_data_files s) u, s)"

subsection \<open>Sequences of cache operations\<close>

text \<open>
  The two statements of the program that touch the deque: the append of line 61 and the
  scan of lines 89-91.
\<close>

datatype cache_op = Put data_file | Get string

fun run_op :: "app_state \<Rightarrow> cache_op \<Rightarrow> app_state" where
  "run_op s (Put e) = recent_data_files_append e s"
| "run_op s (Get u) = snd (datafile u s)"

fun puts :: "cache_op list \<Rightarrow> data_file list" where
  "puts [] = []"
| "puts (Put e # ops) = e # puts ops"
| "puts (Get u # ops) = puts ops"

definition run_ops :: "app_state \<Rightarrow> cache_op list \<Rightarrow> app_state" where
  "run_ops s ops = foldl run_op s ops"

subsection \<open>Requests and responses of the processing service\<close>

text \<open>
  A handler reads \<^verbatim>\<open>request.inputs[name]\<close>; a missing key raises \<^verbatim>\<open>KeyError\<close>.
  \<^verbatim>\<open>WPSResponse\<close> wraps a dictionary from output names to literal values or file
  references.
\<close>

type_synonym request_inputs = "string \<rightharpoonup> string"

datatype wps_output = Literal string | FileReference string string

type_synonym wps_response = "(string \<times> wps_output) list"

definition WPSResponse :: "(string \<times> wps_output) list \<Rightarrow> wps_response" where
  "WPSResponse outputs = outputs"

definition get_input :: "request_inputs \<Rightarrow> string \<Rightarrow> py_exception + string" where
  "get_input inputs k = (case inputs k of None \<Rightarrow> Inl (KeyError k) | Some v \<Rightarrow> Inr v)"

subsection \<open>The echo handlers\<close>

text \<open>\<^verbatim>\<open>demo.py\<close>, lines 31-32: \<^verbatim>\<open>"Hello %s!" % request.inputs['name']\<close>.\<close>

definition say_hello :: "request_inputs \<Rightarrow> py_exception + wps_response" where
  "say_hello inputs =
     (case get_input inputs ''name'' of
        Inl e \<Rightarrow> Inl e
      | Inr name \<Rightarrow> Inr (WPSResponse [(''message'', Literal (''Hello '' @ name @ ''!''))]))"

text \<open>
  \<^verbatim>\<open>processes/sayhello.py\<close>, lines 20-23: the handler of the class \<^verbatim>\<open>SayHello\<close>
  fills the output slot \<^verbatim>\<open>'response'\<close> of the response it is given:
  \<^verbatim>\<open>'Hello ' + request.inputs['name'].data\<close> as its data, \<^verbatim>\<open>UOM('unity')\<close> as its
  unit.
\<close>

record literal_output =
  data :: string
  uom :: string

type_synonym execute_response = "string \<rightharpoonup> literal_output"

definition SayHello_handler ::
  "request_inputs \<Rightarrow> execute_response \<Rightarrow> py_exception + execute_response" where
  "SayHello_handler inputs outputs =
     (case get_input inputs ''name'' of
        Inl e \<Rightarrow> Inl e
      | Inr name \<Rightarrow>
          (case outputs ''response'' of
             None \<Rightarrow> Inl (KeyError ''response'')
           | Some slot \<Rightarrow>
               Inr (outputs(''response'' \<mapsto> slot\<lparr>data := ''Hello '' @ name, uom := ''unity''\<rparr>))))"

subsection \<open>The external collaborators\<close>

text \<open>
  JSON values as \<^verbatim>\<open>json.loads\<close> returns them; \<open>'n\<close> is the type of numbers
  (Python floats and integers), which the handlers never compute with.
\<close>

datatype 'n json =
    JNull
  | JBool bool
  | JNum 'n
  | JStr string
  | JArr "'n json list"
  | JObj "(string \<times> 'n json) list"

text \<open>
  An XML document as \<^verbatim>\<open>lxml\<close> parses it: elements carry their namespace and local
  name; everything that is not an element is character data.
\<close>

datatype xml_node = Element string string "xml_node list" | CharData string

text \<open>
  What running a child process yields: the program is not on the search path, or it
  exits with a status after writing some files (path and content).
\<close>

datatype proc_outcome = Not_On_Path | Exited int "(string \<times> string) list"

text \<open>
  The libraries and the conversion tool are parameters of the model: the temporary
  name \<^verbatim>\<open>tempfile.mkdtemp\<close> picks, the child process, the JSON codec, the geometry
  library (\<^verbatim>\<open>shape\<close>, \<^verbatim>\<open>.centroid\<close>, \<^verbatim>\<open>mapping\<close>), the random identifiers
  (\<open>uuid4 ext k\<close> is the 128-bit integer of the \<open>k\<close>-th \<^verbatim>\<open>uuid4()\<close>), the external
  address of the server, and the XML parser.
\<close>

record ('n, 'g) externals =
  mkdtemp :: "filesystem \<Rightarrow> string"
  popen :: "string list \<Rightarrow> filesystem \<Rightarrow> proc_outcome"
  json_loads :: "string \<Rightarrow> 'n json option"
  json_dumps :: "'n json \<Rightarrow> string"
  shape :: "'n json \<Rightarrow> py_exception + 'g"
  centroid :: "'g \<Rightarrow> 'g"
  mapping :: "'g \<Rightarrow> 'n json"
  uuid4 :: "nat \<Rightarrow> nat"
  host_url :: string
  etree_parse :: "string \<rightharpoonup> xml_node"

subsection \<open>The feature-count handler\<close>

text \<open>Python's \<^verbatim>\<open>str\<close> on a length: the decimal digits, most significant first.\<close>

definition digit_char :: "nat \<Rightarrow> char" where
  "digit_char d = char_of (48 + d)"

fun str :: "nat \<Rightarrow> string" where
  "str n = (if n < 10 then [digit_char n] else str (n div 10) @ [digit_char (n mod 10)])"

declare str.simps [simp del]

text \<open>
  The path \<^verbatim>\<open>//gml:featureMember\<close> selects, in document order, every element of
  the document whose name is \<^verbatim>\<open>featureMember\<close> in the namespace bound to
  \<^verbatim>\<open>gml\<close>, at any depth.
\<close>

definition gml_namespace :: string where
  "gml_namespace = ''http://www.opengis.net/gml''"

fun elements_named :: "string \<Rightarrow> string \<Rightarrow> xml_node \<Rightarrow> xml_node list" where
  "elements_named ns l (CharData t) = []"
| "elements_named ns l (Element ns' l' cs) =
     (if ns' = ns \<and> l' = l then [Element ns' l' cs] else [])
     @ concat (map (elements_named ns l) cs)"

definition xpath_featureMember :: "xml_node \<Rightarrow> xml_node list" where
  "xpath_featureMember doc = elements_named gml_namespace ''featureMember'' doc"

text \<open>Lines 35-40.\<close>

definition feature_count ::
  "('n, 'g) externals \<Rightarrow> request_inputs \<Rightarrow> py_exception + wps_response" where
  "feature_count ext inputs =
     (case get_input inputs ''layer'' of
        Inl e \<Rightarrow> Inl e
      | Inr layer \<Rightarrow>
          (case etree_parse ext layer of
             None \<Rightarrow> Inl XMLSyntaxError
           | Some doc \<Rightarrow>
               (let feature_elements = xpath_featureMember doc
                in Inr (WPSResponse [(''count'', Literal (str (length feature_elements)))]))))"

subsection \<open>The temporary directory\<close>

definition path_join :: "string \<Rightarrow> string \<Rightarrow> string" where
  "path_join d name = d @ ''/'' @ name"

text \<open>\<^verbatim>\<open>rmtree\<close> removes the directory and every path below it.\<close>

definition rmtree :: "string \<Rightarrow> filesystem \<Rightarrow> filesystem" where
  "rmtree d fs = (\<lambda>p. if p = d \<or> prefix (d @ ''/'') p then None else fs p)"

text \<open>
  Lines 22-28: the context manager creates the directory, runs the body of the
  \<^verbatim>\<open>with\<close> block, and its \<^verbatim>\<open>finally\<close> clause removes the directory whether the
  body returned or raised (\<open>Inl\<close>).
\<close>

definition temp_dir ::
  "('n, 'g) externals \<Rightarrow> (string \<Rightarrow> app_state \<Rightarrow> (py_exception + 'a) \<times> app_state) \<Rightarrow>
   app_state \<Rightarrow> (py_exception + 'a) \<times> app_state" where
  "temp_dir ext body s =
     (let tmp = mkdtemp ext (files s);
          s1 = s\<lparr>files := (files s)(tmp \<mapsto> Dir)\<rparr>
      in case body tmp s1 of
           (r, s2) \<Rightarrow> (r, s2\<lparr>files := rmtree tmp (files s2)\<rparr>))"

subsection \<open>The text of an identifier\<close>

text \<open>
  Line 57, \<^verbatim>\<open>str(uuid4())\<close>. Python's \<^verbatim>\<open>str\<close> of a UUID writes its integer as 32
  lower-case hexadecimal digits (\<^verbatim>\<open>'%032x'\<close>), most significant first, and joins the
  groups of 8, 4, 4, 4 and 12 digits with hyphens. A UUID's integer is below \<open>2 ^ 128\<close>;
  the 32 digits are those of its low 128 bits.
\<close>

definition hex_char :: "nat \<Rightarrow> char" where
  "hex_char d = ''0123456789abcdef'' ! d"

definition hex32 :: "nat \<Rightarrow> string" where
  "hex32 n = map (\<lambda>i. hex_char ((n div 16 ^ (31 - i)) mod 16)) [0..<32]"

definition str_uuid :: "nat \<Rightarrow> string" where
  "str_uuid n =
     (let h = hex32 n
      in take 8 h @ ''-'' @ take 4 (drop 8 h) @ ''-'' @ take 4 (drop 12 h) @ ''-''
         @ take 4 (drop 16 h) @ ''-'' @ drop 20 h)"

subsection \<open>The centroid handler\<close>

definition write_bytes :: "string \<Rightarrow> string \<Rightarrow> filesystem \<Rightarrow> filesystem" where
  "write_bytes p content fs = fs(p \<mapsto> File content)"

definition read_text :: "string \<Rightarrow> filesystem \<Rightarrow> py_exception + string" where
  "read_text p fs = (case fs p of Some (File c) \<Rightarrow> Inr c | _ \<Rightarrow> Inl IOError)"

text \<open>
  \<^verbatim>\<open>subprocess.check_call\<close>: the files the child wrote stay; a status other than 0
  raises \<^verbatim>\<open>CalledProcessError\<close>.
\<close>

definition check_call ::
  "('n, 'g) externals \<Rightarrow> string list \<Rightarrow> filesystem \<Rightarrow> (py_exception + unit) \<times> filesystem" where
  "check_call ext argv fs =
     (case popen ext argv fs of
        Not_On_Path \<Rightarrow> (Inl OSError, fs)
      | Exited rc written \<Rightarrow>
          (let fs' = foldl (\<lambda>f (p, c). write_bytes p c f) fs written
           in if rc = 0 then (Inr (), fs') else (Inl (CalledProcessError rc), fs')))"

text \<open>Subscripting a JSON value with a string key, to read and to assign.\<close>

fun getitem :: "'n json \<Rightarrow> string \<Rightarrow> py_exception + 'n json" where
  "getitem (JObj kvs) k = (case map_of kvs k of None \<Rightarrow> Inl (KeyError k) | Some v \<Rightarrow> Inr v)"
| "getitem _ k = Inl TypeError"

fun setitem :: "'n json \<Rightarrow> string \<Rightarrow> 'n json \<Rightarrow> py_exception + 'n json" where
  "setitem (JObj kvs) k v = Inr (JObj (AList.update k v kvs))"
| "setitem _ k v = Inl TypeError"

text \<open>Lines 53-54, the body of the loop, for one feature.\<close>

definition centroid_feature :: "('n, 'g) externals \<Rightarrow> 'n json \<Rightarrow> py_exception + 'n json" where
  "centroid_feature ext feature =
     (case getitem feature ''geometry'' of
        Inl e \<Rightarrow> Inl e
      | Inr g \<Rightarrow>
          (case shape ext g of
             Inl e \<Rightarrow> Inl e
           | Inr geom \<Rightarrow> setitem feature ''geometry'' (mapping ext (centroid ext geom))))"

fun centroid_features ::
  "('n, 'g) externals \<Rightarrow> 'n json list \<Rightarrow> py_exception + 'n json list" where
  "centroid_features ext [] = Inr []"
| "centroid_features ext (feature # rest) =
     (case centroid_feature ext feature of
        Inl e \<Rightarrow> Inl e
      | Inr feature' \<Rightarrow>
          (case centroid_features ext rest of
             Inl e \<Rightarrow> Inl e
           | Inr rest' \<Rightarrow> Inr (feature' # rest')))"

text \<open>
  Lines 52-54, the loop over \<^verbatim>\<open>data['features']\<close>. The features are changed in
  place, so the result is \<open>data\<close> with the changed list. Iterating a dictionary or a
  string yields strings, which cannot be subscripted by \<^verbatim>\<open>'geometry'\<close>; an empty one
  yields nothing and leaves \<open>data\<close> as it is.
\<close>

definition centroids_loop :: "('n, 'g) externals \<Rightarrow> 'n json \<Rightarrow> py_exception + 'n json" where
  "centroids_loop ext dat =
     (case getitem dat ''features'' of
        Inl e \<Rightarrow> Inl e
      | Inr fv \<Rightarrow>
          (case fv of
             JArr features \<Rightarrow>
               (case centroid_features ext features of
                  Inl e \<Rightarrow> Inl e
                | Inr features' \<Rightarrow> setitem dat ''features'' (JArr features'))
           | JObj kvs \<Rightarrow> (if kvs = [] then Inr dat else Inl TypeError)
           | JStr t \<Rightarrow> (if t = [] then Inr dat else Inl TypeError)
           | _ \<Rightarrow> Inl TypeError))"

text \<open>
  Line 62: the route of line 87 is \<^verbatim>\<open>/datafile/<uuid>\<close>, so the external URL of the
  endpoint \<^verbatim>\<open>datafile\<close> is the server's address followed by that path.
\<close>

definition url_for_datafile :: "('n, 'g) externals \<Rightarrow> string \<Rightarrow> string" where
  "url_for_datafile ext u = host_url ext @ ''/datafile/'' @ u"

text \<open>The command line of lines 49-50 and the file system the tool is started on.\<close>

definition ogr2ogr_argv :: "string \<Rightarrow> string list" where
  "ogr2ogr_argv tmp =
     [''ogr2ogr'', ''-f'', ''geojson'', path_join tmp ''input.geojson'', path_join tmp ''input.gml'']"

definition tool_filesystem :: "('n, 'g) externals \<Rightarrow> string \<Rightarrow> app_state \<Rightarrow> filesystem" where
  "tool_filesystem ext layer s =
     write_bytes (path_join (mkdtemp ext (files s)) ''input.gml'') layer
       ((files s)(mkdtemp ext (files s) \<mapsto> Dir))"

text \<open>Lines 46-64, the body of the \<^verbatim>\<open>with\<close> block.\<close>

definition centroids_body ::
  "('n, 'g) externals \<Rightarrow> request_inputs \<Rightarrow> string \<Rightarrow> app_state \<Rightarrow>
   (py_exception + wps_response) \<times> app_state" where
  "centroids_body ext inputs tmp s =
     (let input_gml = path_join tmp ''input.gml'' in
      case get_input inputs ''layer'' of
        Inl e \<Rightarrow> (Inl e, s)
      | Inr layer \<Rightarrow>
          (let s1 = s\<lparr>files := write_bytes input_gml layer (files s)\<rparr>;
               input_geojson = path_join tmp ''input.geojson''
           in case check_call ext (ogr2ogr_argv tmp) (files s1) of
                (Inl e, fs2) \<Rightarrow> (Inl e, s1\<lparr>files := fs2\<rparr>)
              | (Inr _, fs2) \<Rightarrow>
                  (let s2 = s1\<lparr>files := fs2\<rparr> in
                   case read_text input_geojson fs2 of
                     Inl e \<Rightarrow> (Inl e, s2)
                   | Inr txt \<Rightarrow>
                       (case json_loads ext txt of
                          None \<Rightarrow> (Inl ValueError, s2)
                        | Some dat \<Rightarrow>
                            (case centroids_loop ext dat of
                               Inl e \<Rightarrow> (Inl e, s2)
                             | Inr dat' \<Rightarrow>
                                 (let out_bytes = json_dumps ext dat';
                                      data_file = \<lparr>uuid = str_uuid (uuid4 ext (uuid_calls s2)),
                                                   bytes = out_bytes,
                                                   mime_type = ''application/json''\<rparr>;
                                      s3 = recent_data_files_append data_file
                                             (s2\<lparr>uuid_calls := Suc (uuid_calls s2)\<rparr>);
                                      url = url_for_datafile ext (uuid data_file);
                                      reference = FileReference url (mime_type data_file)
                                  in (Inr (WPSResponse [(''centroids_layer'', reference)]),
                                      s3)))))))"

definition centroids ::
  "('n, 'g) externals \<Rightarrow> request_inputs \<Rightarrow> app_state \<Rightarrow>
   (py_exception + wps_response) \<times> app_state" where
  "centroids ext inputs s = temp_dir ext (centroids_body ext inputs) s"

subsection \<open>Fetching a URL of the retrieval endpoint\<close>



subsection \<open>The operations of the application\<close>

text \<open>
  The three handlers registered at lines 68-74 and the retrieval route, each with the
  state it leaves. The two handlers that are pure functions leave the state as it is.
\<close>

datatype operation =
    Say_hello request_inputs
  | Feature_count request_inputs
  | Centroids request_inputs
  | Datafile string

fun state_after :: "('n, 'g) externals \<Rightarrow> operation \<Rightarrow> app_state \<Rightarrow> app_state" where
  "state_after ext (Say_hello inputs) s = s"
| "state_after ext (Feature_count inputs) s = s"
| "state_after ext (Centroids inputs) s = snd (centroids ext inputs s)"
| "state_after ext (Datafile u) s = snd (datafile u s)"

definition run_operations ::
  "('n, 'g) externals \<Rightarrow> app_state \<Rightarrow> operation list \<Rightarrow> app_state" where
  "run_operations ext s ops = foldl (\<lambda>s' op. state_after ext op s') s ops"

subsection \<open>Notions the claims are stated with\<close>


definition features_of :: "'n json \<Rightarrow> 'n json list option" where
  "features_of dat =
     (case dat of
        JObj kvs \<Rightarrow> (case map_of kvs ''features'' of Some (JArr features) \<Rightarrow> Some features | _ \<Rightarrow> None)
      | _ \<Rightarrow> None)"

text \<open>
  The number of elements of a given name in a document, counted without building the
  list of them, and the number a string of decimal digits denotes.
\<close>

fun count_named :: "string \<Rightarrow> string \<Rightarrow> xml_node \<Rightarrow> nat" where
  "count_named ns l (CharData t) = 0"
| "count_named ns l (Element ns' l' cs) =
     (if ns' = ns \<and> l' = l then 1 else 0) + sum_list (map (count_named ns l) cs)"

definition digit_value :: "char \<Rightarrow> nat" where
  "digit_value c = of_char c - 48"

definition decimal_value :: "string \<Rightarrow> nat" where
  "decimal_value t = foldl (\<lambda>a c. 10 * a + digit_value c) 0 t"

subsection \<open>Concrete inputs\<close>

text \<open>Cache entries, used to run the definitions on explicit inputs.\<close>

definition entry :: "nat \<Rightarrow> data_file" where
  "entry k = \<lparr>uuid = str k, bytes = ''{}'', mime_type = ''application/json''\<rparr>"

definition es21 :: "data_file list" where
  "es21 = map entry [0..<21]"

definition full_state :: app_state where
  "full_state = \<lparr>recent_data_files = map entry [0..<20], files = Map.empty, uuid_calls = 20\<rparr>"

definition dup_a :: data_file where
  "dup_a = \<lparr>uuid = ''id'', bytes = ''first'', mime_type = ''application/json''\<rparr>"

definition dup_b :: data_file where
  "dup_b = \<lparr>uuid = ''id'', bytes = ''second'', mime_type = ''application/json''\<rparr>"

text \<open>
  A small world to run the handlers in: a conversion tool that accepts exactly the
  layer \<^verbatim>\<open><gml/>\<close> and writes the text \<^verbatim>\<open>FC\<close>, a JSON codec that reads that text as
  a collection of two polygon features, a geometry library whose centroids are points,
  an identifier generator that counts, and an XML parser that knows one document with three feature members.
\<close>

definition poly0 :: "int json" where
  "poly0 = JObj [(''type'', JStr ''Polygon'')]"

definition point0 :: "int json" where
  "point0 = JObj [(''type'', JStr ''Point'')]"

definition feat0 :: "int json" where
  "feat0 = JObj [(''type'', JStr ''Feature''), (''geometry'', poly0)]"

definition fc0 :: "int json" where
  "fc0 = JObj [(''type'', JStr ''FeatureCollection''), (''features'', JArr [feat0, feat0])]"

definition fc1 :: "int json" where
  "fc1 = JObj [(''type'', JStr ''FeatureCollection''), (''features'', JArr [feat0])]"

definition popen0 :: "string list \<Rightarrow> filesystem \<Rightarrow> proc_outcome" where
  "popen0 argv fs =
     (case argv of
        [prog, f, fmt, out, inp] \<Rightarrow>
          (if fs inp = Some (File ''<gml/>'') then Exited 0 [(out, ''FC'')]
           else if fs inp = Some (File ''<gml1/>'') then Exited 0 [(out, ''FC1'')]
           else Exited 1 [])
      | _ \<Rightarrow> Not_On_Path)"

definition doc3 :: xml_node where
  "doc3 = Element ''http://www.opengis.net/wfs'' ''FeatureCollection''
     [Element gml_namespace ''featureMember'' [CharData ''a''],
      CharData ''  '',
      Element gml_namespace ''featureMember'' [],
      Element gml_namespace ''boundedBy'' [],
      Element gml_namespace ''featureMember'' [Element ''urn:x'' ''featureMember'' []]]"

definition ext0 :: "(int, int json) externals" where
  "ext0 = \<lparr>mkdtemp = (\<lambda>fs. ''/tmp/tmpdemo''),
           popen = popen0,
           json_loads = (\<lambda>txt. if txt = ''FC'' then Some fc0
                               else if txt = ''FC1'' then Some fc1 else None),
           json_dumps = (\<lambda>d. case features_of d of
                                 Some fs \<Rightarrow> ''features: '' @ str (length fs)
                               | None \<Rightarrow> ''other''),
           shape = (\<lambda>g. if g = poly0 then Inr g else Inl GeometryError),
           centroid = (\<lambda>g. point0),
           mapping = (\<lambda>g. g),
           uuid4 = (\<lambda>k. k),
           host_url = ''http://localhost:5000'',
           etree_parse = (\<lambda>t. if t = ''<doc/>'' then Some doc3 else None)\<rparr>"

definition good_inputs :: request_inputs where
  "good_inputs = [''layer'' \<mapsto> ''<gml/>'']"




definition bad_inputs :: request_inputs where
  "bad_inputs = [''layer'' \<mapsto> ''not gml'']"

definition hello_inputs :: request_inputs where
  "hello_inputs = [''name'' \<mapsto> ''World'']"

definition empty_slot :: literal_output where
  "empty_slot = \<lparr>data = [], uom = []\<rparr>"

section \<open>The bounded result cache\<close>

lemma deque_append_eq:
  "deque_append n d x = (if length d < n then d @ [x] else tl (d @ [x]))"
  by (simp add: deque_append_def Let_def less_Suc_eq_le not_less)

lemma tl_drop_one: "tl ys = drop (Suc 0) ys"
  by (simp add: drop_Suc)

lemma last_window_step:
  assumes "d = drop (length xs - n) xs"
  shows "deque_append n d x = drop (length (xs @ [x]) - n) (xs @ [x])"
proof (cases "length xs < n")
  case True
  with assms have "d = xs" by simp
  with True show ?thesis by (simp add: deque_append_eq)
next
  case False
  define k where "k = length xs - n"
  have k: "k \<le> length xs" "length (xs @ [x]) - n = Suc k" "length d = n"
    using False assms by (simp_all add: k_def)
  have "deque_append n d x = drop (Suc 0) (d @ [x])"
    using k(3) by (simp add: deque_append_eq tl_drop_one del: drop_append)
  also have "d @ [x] = drop k (xs @ [x])"
    using assms k(1) by (simp add: k_def)
  also have "drop (Suc 0) (drop k (xs @ [x])) = drop (Suc k) (xs @ [x])"
    by (simp del: drop_append)
  finally show ?thesis using k(2) by simp
qed

lemma run_op_cache:
  "recent_data_files (run_op s op) =
     (case op of Put e \<Rightarrow> deque_append maxlen (recent_data_files s) e
               | Get u \<Rightarrow> recent_data_files s)"
  by (cases op) (simp_all add: recent_data_files_append_def datafile_def)

lemma run_ops_window:
  "recent_data_files s = drop (length xs - maxlen) xs \<Longrightarrow>
   recent_data_files (run_ops s ops) =
     drop (length (xs @ puts ops) - maxlen) (xs @ puts ops)"
proof (induction ops arbitrary: s xs)
  case Nil
  then show ?case by (simp add: run_ops_def)
next
  case (Cons op ops)
  show ?case
  proof (cases op)
    case (Put e)
    have "recent_data_files (run_op s op) =
        drop (length (xs @ [e]) - maxlen) (xs @ [e])"
      unfolding run_op_cache Put cache_op.case
      by (rule last_window_step) (rule Cons.prems)
    from Cons.IH [OF this] show ?thesis
      using Put by (simp add: run_ops_def)
  next
    case (Get u)
    have "recent_data_files (run_op s op) = drop (length xs - maxlen) xs"
      using Cons.prems Get by (simp add: datafile_def)
    from Cons.IH [OF this] show ?thesis
      using Get by (simp add: run_ops_def)
  qed
qed

text \<open>
  Claim C1. Whatever sequence of appends and lookups runs on a deque that holds at most
  20 entries, the deque holds at most 20 entries afterwards, and they are the last 20 of
  the entries it held followed by the appended ones, in that order: lookups change
  nothing, and an append to a full deque drops exactly the entry at the left end.
\<close>

theorem cache_bounded_fifo:
  assumes "length (recent_data_files s) \<le> maxlen"
  shows "maxlen = 20 \<and>
         length (recent_data_files (run_ops s ops)) \<le> maxlen \<and>
         recent_data_files (run_ops s ops) =
           drop (length (recent_data_files s @ puts ops) - maxlen)
             (recent_data_files s @ puts ops) \<and>
         recent_data_files (recent_data_files_append e s) =
           (if length (recent_data_files s) < maxlen then recent_data_files s @ [e]
            else tl (recent_data_files s @ [e])) \<and>
         recent_data_files (snd (datafile u s)) = recent_data_files s"
proof -
  have start: "recent_data_files s =
      drop (length (recent_data_files s) - maxlen) (recent_data_files s)"
    using assms by simp
  have win: "recent_data_files (run_ops s ops) =
      drop (length (recent_data_files s @ puts ops) - maxlen) (recent_data_files s @ puts ops)"
    by (rule run_ops_window [OF start])
  have "length (recent_data_files (run_ops s ops)) \<le> maxlen"
    unfolding win by simp
  moreover have "recent_data_files (recent_data_files_append e s) =
           (if length (recent_data_files s) < maxlen then recent_data_files s @ [e]
            else tl (recent_data_files s @ [e]))"
    by (simp add: recent_data_files_append_def deque_append_eq)
  moreover have "recent_data_files (snd (datafile u s)) = recent_data_files s"
    by (simp add: datafile_def)
  ultimately show ?thesis using win by (simp add: maxlen_def)
qed

theorem cache_bounded_fifo_witness:
  "length (recent_data_files full_state) \<le> maxlen \<and>
   recent_data_files (recent_data_files_append (entry 20) full_state) = map entry [1..<21] \<and>
   recent_data_files (run_ops full_state [Get ''0'', Put (entry 20), Get ''1''])
     = map entry [1..<21]"
proof -
  have len: "length (recent_data_files full_state) = 20"
    by (simp add: full_state_def)
  have ev: "tl (recent_data_files full_state @ [entry 20]) = map entry [1..<21]"
    unfolding full_state_def app_state.simps by code_simp
  have dr: "drop (Suc 0) (recent_data_files full_state @ [entry 20]) = map entry [1..<21]"
    using ev by (simp add: tl_drop_one)
  show ?thesis
    using cache_bounded_fifo [of full_state "[Get ''0'', Put (entry 20), Get ''1'']"
        "entry 20" "''0''"] len ev dr
    by (simp add: maxlen_def del: drop_append)
qed

lemma puts_map_Put: "puts (map Put es) = es"
  by (induction es) simp_all

lemma datafile_loop_NotFound:
  "datafile_loop c u = Inl (NotFound 404) \<longleftrightarrow> u \<notin> uuid ` set c"
  by (induction c) auto

lemma datafile_loop_first:
  "i < length c \<Longrightarrow> uuid (c ! i) = u \<Longrightarrow> \<forall>j<i. uuid (c ! j) \<noteq> u \<Longrightarrow>
   datafile_loop c u = Inr (Response (bytes (c ! i)))"
proof (induction c arbitrary: i)
  case Nil
  then show ?case by simp
next
  case (Cons e c)
  show ?case
  proof (cases i)
    case 0
    with Cons.prems show ?thesis by simp
  next
    case (Suc k)
    with Cons.prems have "uuid e \<noteq> u" by auto
    moreover have "datafile_loop c u = Inr (Response (bytes (c ! k)))"
    proof (rule Cons.IH)
      show "k < length c" using Cons.prems Suc by simp
      show "uuid (c ! k) = u" using Cons.prems Suc by simp
      show "\<forall>j<k. uuid (c ! j) \<noteq> u"
      proof (intro allI impI)
        fix j assume "j < k"
        then have "Suc j < i" using Suc by simp
        with Cons.prems(3) have "uuid ((e # c) ! Suc j) \<noteq> u" by blast
        then show "uuid (c ! j) \<noteq> u" by simp
      qed
    qed
    ultimately show ?thesis using Suc by simp
  qed
qed

text \<open>
  Claim C2. After 21 entries with pairwise distinct identifiers are appended to the
  empty deque, the deque holds the last 20 of them in the order of insertion, and the
  lookup of the first entry's identifier ends in \<^verbatim>\<open>abort(404)\<close>.
\<close>

theorem first_of_21_evicted:
  assumes "length es = 21" and "distinct (map uuid es)"
  shows "recent_data_files (run_ops (init_state fs) (map Put es)) = tl es \<and>
         recent_data_files (run_ops (init_state fs) (map Put es)) = drop (length es - 20) es \<and>
         length (recent_data_files (run_ops (init_state fs) (map Put es))) = 20 \<and>
         fst (datafile (uuid (hd es)) (run_ops (init_state fs) (map Put es)))
           = Inl (NotFound 404)"
proof -
  let ?s = "run_ops (init_state fs) (map Put es)"
  have "recent_data_files (init_state fs) = drop (length ([]::data_file list) - maxlen) []"
    by (simp add: init_state_def)
  from run_ops_window [OF this, of "map Put es"]
  have c: "recent_data_files ?s = drop (Suc 0) es"
    using assms(1) by (simp add: puts_map_Put maxlen_def)
  then have tl: "recent_data_files ?s = tl es" by (simp add: tl_drop_one)
  obtain e rest where es: "es = e # rest" using assms(1) by (cases es) auto
  have "uuid e \<notin> uuid ` set rest" using assms(2) es by auto
  then have "datafile_loop (tl es) (uuid (hd es)) = Inl (NotFound 404)"
    using es by (simp add: datafile_loop_NotFound)
  then show ?thesis using tl c assms(1) by (simp add: datafile_def)
qed

theorem first_of_21_evicted_witness:
  "length es21 = 21 \<and> distinct (map uuid es21) \<and>
   recent_data_files (run_ops (init_state Map.empty) (map Put es21)) = tl es21 \<and>
   fst (datafile (uuid (hd es21)) (run_ops (init_state Map.empty) (map Put es21)))
     = Inl (NotFound 404)"
proof -
  have h1: "length es21 = 21" by (simp add: es21_def)
  have h2: "distinct (map uuid es21)" by code_simp
  show ?thesis using first_of_21_evicted [OF h1 h2, of Map.empty] h1 h2 by simp
qed

text \<open>
  Claim C3. The lookup of an identifier answers with the stored bytes of the entry, and
  an identifier that no entry of the deque carries ends in \<^verbatim>\<open>abort(404)\<close>; the
  media type stored with the entry is not part of the answer. On the deque that holds one
  entry of media type \<^verbatim>\<open>application/json\<close>, the route builds its response from the
  bytes alone and passes no media type.
\<close>

theorem datafile_response_without_media_type:
  "fst (datafile ''id''
     (recent_data_files_append
        \<lparr>uuid = ''id'', bytes = ''{}'', mime_type = ''application/json''\<rparr>
        (init_state Map.empty)))
   = Inr \<lparr>response = ''{}'', mimetype = None\<rparr>"
  by (simp add: datafile_def recent_data_files_append_def deque_append_eq init_state_def
      maxlen_def Response_def)

lemma datafile_loop_append_fresh:
  "uuid e \<notin> uuid ` set xs \<Longrightarrow> datafile_loop (xs @ [e]) (uuid e) = Inr (Response (bytes e))"
  by (induction xs) auto

lemma lookup_fresh_entry:
  assumes "uuid e \<notin> uuid ` set (recent_data_files s)"
  shows "fst (datafile (uuid e) (recent_data_files_append e s)) = Inr (Response (bytes e))"
proof (cases "length (recent_data_files s) < maxlen")
  case True
  then show ?thesis using datafile_loop_append_fresh [OF assms]
    by (simp add: datafile_def recent_data_files_append_def deque_append_eq)
next
  case False
  then obtain x xs where c: "recent_data_files s = x # xs"
    by (cases "recent_data_files s") (auto simp: maxlen_def)
  with assms have "uuid e \<notin> uuid ` set xs" by auto
  from datafile_loop_append_fresh [OF this] show ?thesis using False c
    by (simp add: datafile_def recent_data_files_append_def deque_append_eq)
qed

lemma lookup_absent:
  "u \<notin> uuid ` set (recent_data_files s) \<Longrightarrow> fst (datafile u s) = Inl (NotFound 404)"
  by (simp add: datafile_def datafile_loop_NotFound)

text \<open>
  The part of the retrieval that holds: an entry appended under an identifier that no
  entry of the deque carries is found by that identifier, and the response holds its
  bytes; an identifier that no entry of the deque carries ends in \<^verbatim>\<open>abort(404)\<close>.
\<close>

theorem lookup_returns_stored_bytes:
  "(uuid e \<notin> uuid ` set (recent_data_files s) \<longrightarrow>
      fst (datafile (uuid e) (recent_data_files_append e s)) = Inr (Response (bytes e))) \<and>
   (u \<notin> uuid ` set (recent_data_files s) \<longrightarrow> fst (datafile u s) = Inl (NotFound 404)) \<and>
   (fst (datafile u s) = Inl (NotFound 404) \<longrightarrow> u \<notin> uuid ` set (recent_data_files s))"
  using lookup_fresh_entry [of e s] lookup_absent [of u s]
  by (simp add: datafile_def datafile_loop_NotFound)

theorem lookup_returns_stored_bytes_witness:
  "fst (datafile ''20'' (recent_data_files_append (entry 20) full_state)) = Inr (Response ''{}'') \<and>
   fst (datafile ''20'' full_state) = Inl (NotFound 404)"
proof -
  have fresh: "''20'' \<notin> uuid ` set (recent_data_files full_state)"
    unfolding full_state_def app_state.simps by code_simp
  have e: "uuid (entry 20) = ''20''" "bytes (entry 20) = ''{}''"
    by (simp_all add: entry_def str.simps digit_char_def) code_simp+
  show ?thesis
    using lookup_returns_stored_bytes [of "entry 20" full_state "''20''"] fresh e
    by simp
qed

text \<open>
  Claim C10. When two entries of the deque carry the same identifier, the lookup
  answers with the bytes of the one nearest the left end, which is the one appended
  first: the entry at position \<open>i\<close> of the deque is the one at position \<open>i\<close> of the
  retained tail of the sequence of appended entries.
\<close>

theorem duplicate_uuid_returns_oldest:
  assumes c: "c = recent_data_files (run_ops (init_state fs) ops)"
    and ij: "i < j" "j < length c"
    and u: "uuid (c ! i) = u" "uuid (c ! j) = u" "\<forall>k<i. uuid (c ! k) \<noteq> u"
  shows "fst (datafile u (run_ops (init_state fs) ops)) = Inr (Response (bytes (c ! i))) \<and>
         c ! i = puts ops ! (length (puts ops) - length c + i) \<and>
         c ! j = puts ops ! (length (puts ops) - length c + j)"
proof -
  have "recent_data_files (init_state fs) = drop (length ([]::data_file list) - maxlen) []"
    by (simp add: init_state_def)
  from run_ops_window [OF this, of ops]
  have win: "c = drop (length (puts ops) - maxlen) (puts ops)"
    using c by simp
  have len: "length (puts ops) - length c = length (puts ops) - maxlen"
    unfolding win by simp
  have idx: "\<And>k. k < length c \<Longrightarrow> c ! k = puts ops ! (length (puts ops) - length c + k)"
    unfolding len using win by simp
  have "datafile_loop c u = Inr (Response (bytes (c ! i)))"
    using ij u by (intro datafile_loop_first) simp_all
  then show ?thesis using idx [of i] idx [of j] ij c by (simp add: datafile_def)
qed

theorem duplicate_uuid_returns_oldest_witness:
  "fst (datafile ''id'' (run_ops (init_state Map.empty) [Put dup_a, Put dup_b]))
     = Inr (Response ''first'')"
proof -
  let ?c = "recent_data_files (run_ops (init_state Map.empty) [Put dup_a, Put dup_b])"
  have c: "?c = [dup_a, dup_b]"
    by (simp add: run_ops_def recent_data_files_append_def deque_append_eq init_state_def
        maxlen_def)
  have "fst (datafile ''id'' (run_ops (init_state Map.empty) [Put dup_a, Put dup_b]))
     = Inr (Response (bytes (?c ! 0)))"
    using duplicate_uuid_returns_oldest [of ?c Map.empty "[Put dup_a, Put dup_b]" 0 1 "''id''"]
    unfolding c by (simp add: dup_a_def dup_b_def)
  then show ?thesis unfolding c by (simp add: dup_a_def)
qed

section \<open>Decimal strings and element counts\<close>

lemma digit_char_nth: "d < 10 \<Longrightarrow> digit_char d = ''0123456789'' ! d"
proof -
  assume "d < 10"
  then have "d = 0 \<or> d = 1 \<or> d = 2 \<or> d = 3 \<or> d = 4 \<or> d = 5 \<or> d = 6 \<or> d = 7 \<or> d = 8 \<or> d = 9"
    by arith
  moreover have "digit_char 0 = CHR ''0''" "digit_char 1 = CHR ''1''" "digit_char 2 = CHR ''2''"
    "digit_char 3 = CHR ''3''" "digit_char 4 = CHR ''4''" "digit_char 5 = CHR ''5''"
    "digit_char 6 = CHR ''6''" "digit_char 7 = CHR ''7''" "digit_char 8 = CHR ''8''"
    "digit_char 9 = CHR ''9''"
    by code_simp+
  ultimately show ?thesis by auto
qed

lemma length_elements_named: "length (elements_named ns l d) = count_named ns l d"
proof (induction d)
  case (CharData t)
  show ?case by simp
next
  case (Element ns' l' cs)
  then have eq: "map (\<lambda>x. length (elements_named ns l x)) cs = map (count_named ns l) cs"
    by simp
  show ?case by (simp add: length_concat comp_def eq)
qed

lemma digit_value_digit_char: "d < 10 \<Longrightarrow> digit_value (digit_char d) = d"
  by (simp add: digit_value_def digit_char_def)

lemma decimal_value_snoc: "decimal_value (t @ [c]) = 10 * decimal_value t + digit_value c"
  by (simp add: decimal_value_def)

lemma decimal_value_str: "decimal_value (str n) = n"
proof (induction n rule: str.induct)
  case (1 n)
  show ?case
  proof (cases "n < 10")
    case True
    then show ?thesis
      by (simp add: str.simps [of n] decimal_value_def digit_value_digit_char)
  next
    case False
    with 1 have "decimal_value (str (n div 10)) = n div 10" by simp
    with False show ?thesis
      by (simp add: str.simps [of n] decimal_value_snoc digit_value_digit_char)
  qed
qed

lemma digit_char_digit: "d < 10 \<Longrightarrow> digit_char d \<in> set ''0123456789''"
  using nth_mem [of d "''0123456789''"] by (simp add: digit_char_nth del: set_simps)

lemma str_digits: "set (str n) \<subseteq> set ''0123456789''"
proof (induction n rule: str.induct)
  case (1 n)
  show ?case
  proof (cases "n < 10")
    case True
    then show ?thesis using digit_char_digit [of n] by (simp add: str.simps [of n])
  next
    case False
    with 1 have "set (str (n div 10)) \<subseteq> set ''0123456789''" by simp
    moreover have "digit_char (n mod 10) \<in> set ''0123456789''"
      by (rule digit_char_digit) simp
    ultimately show ?thesis using False by (simp add: str.simps [of n])
  qed
qed

section \<open>The echo handlers\<close>

text \<open>
  Claim C7, as the code has it. For a request whose input \<^verbatim>\<open>name\<close> is the string
  \<open>name\<close>, the handler \<^verbatim>\<open>say_hello\<close> of \<^verbatim>\<open>demo.py\<close> answers with the message
  \<^verbatim>\<open>Hello <name>!\<close>, and the handler of the class \<^verbatim>\<open>SayHello\<close> stores
  \<^verbatim>\<open>Hello <name>\<close>, without the exclamation mark, in the output \<^verbatim>\<open>response\<close>;
  both carry the name verbatim.
\<close>

theorem echo_handlers_greeting:
  assumes "inputs ''name'' = Some name"
  shows "say_hello inputs = Inr [(''message'', Literal (''Hello '' @ name @ ''!''))] \<and>
         (\<forall>slot. outputs ''response'' = Some slot \<longrightarrow>
            SayHello_handler inputs outputs =
              Inr (outputs(''response'' \<mapsto> slot\<lparr>data := ''Hello '' @ name, uom := ''unity''\<rparr>)))"
  using assms by (simp add: say_hello_def SayHello_handler_def get_input_def WPSResponse_def)

theorem echo_handlers_greeting_witness:
  "hello_inputs ''name'' = Some ''World'' \<and>
   say_hello hello_inputs = Inr [(''message'', Literal ''Hello World!'')] \<and>
   SayHello_handler hello_inputs [''response'' \<mapsto> empty_slot]
     = Inr [''response'' \<mapsto> \<lparr>data = ''Hello World'', uom = ''unity''\<rparr>]"
proof -
  have h: "hello_inputs ''name'' = Some ''World''" by (simp add: hello_inputs_def)
  show ?thesis
    using echo_handlers_greeting [where inputs = hello_inputs
        and outputs = "[''response'' \<mapsto> empty_slot]", OF h] h
    by (simp add: empty_slot_def)
qed

text \<open>
  The claim as it is written gives \<^verbatim>\<open>Hello World!\<close> for the input \<^verbatim>\<open>World\<close>; the
  handler of \<^verbatim>\<open>processes/sayhello.py\<close> gives \<^verbatim>\<open>Hello World\<close>.
\<close>

theorem SayHello_handler_no_exclamation_mark:
  "SayHello_handler hello_inputs [''response'' \<mapsto> empty_slot]
     = Inr [''response'' \<mapsto> \<lparr>data = ''Hello World'', uom = ''unity''\<rparr>] \<and>
   ''Hello World'' \<noteq> ''Hello World!''"
  by (simp add: SayHello_handler_def get_input_def hello_inputs_def empty_slot_def)

section \<open>The feature-count handler\<close>

text \<open>
  Claim C8. When the parser accepts the layer as a document, the handler answers with
  the decimal string of the number of \<^verbatim>\<open>gml:featureMember\<close> elements of the
  document; when the parser rejects the layer, the handler raises and gives no count.
  The string is made of decimal digits and denotes that number.
\<close>

theorem feature_count_result:
  assumes "inputs ''layer'' = Some layer"
  shows "(\<forall>doc. etree_parse ext layer = Some doc \<longrightarrow>
            feature_count ext inputs =
              Inr [(''count'', Literal (str (count_named gml_namespace ''featureMember'' doc)))]) \<and>
         (etree_parse ext layer = None \<longrightarrow> feature_count ext inputs = Inl XMLSyntaxError) \<and>
         decimal_value (str n) = n \<and> set (str n) \<subseteq> set ''0123456789''"
proof (intro conjI)
  show "\<forall>doc. etree_parse ext layer = Some doc \<longrightarrow>
            feature_count ext inputs =
              Inr [(''count'', Literal (str (count_named gml_namespace ''featureMember'' doc)))]"
    using assms
    by (simp add: feature_count_def get_input_def xpath_featureMember_def length_elements_named
        WPSResponse_def)
  show "etree_parse ext layer = None \<longrightarrow> feature_count ext inputs = Inl XMLSyntaxError"
    using assms by (simp add: feature_count_def get_input_def)
  show "decimal_value (str n) = n" by (rule decimal_value_str)
  show "set (str n) \<subseteq> set ''0123456789''" by (rule str_digits)
qed

theorem feature_count_result_witness:
  "etree_parse ext0 ''<doc/>'' = Some doc3 \<and>
   count_named gml_namespace ''featureMember'' doc3 = 3 \<and>
   feature_count ext0 [''layer'' \<mapsto> ''<doc/>''] = Inr [(''count'', Literal ''3'')] \<and>
   etree_parse ext0 ''<doc'' = None \<and>
   feature_count ext0 [''layer'' \<mapsto> ''<doc''] = Inl XMLSyntaxError"
proof -
  have p: "etree_parse ext0 ''<doc/>'' = Some doc3" "etree_parse ext0 ''<doc'' = None"
    by (simp_all add: ext0_def)
  have n: "count_named gml_namespace ''featureMember'' doc3 = 3"
    by (simp add: doc3_def gml_namespace_def)
  have s3: "str 3 = ''3''" by (simp add: str.simps digit_char_nth)
  have "feature_count ext0 [''layer'' \<mapsto> ''<doc/>''] = Inr [(''count'', Literal ''3'')]"
    using feature_count_result [where inputs = "[''layer'' \<mapsto> ''<doc/>'']"
        and layer = "''<doc/>''" and ext = ext0] p(1) n s3 by simp
  moreover have "feature_count ext0 [''layer'' \<mapsto> ''<doc'']  = Inl XMLSyntaxError"
    using feature_count_result [where inputs = "[''layer'' \<mapsto> ''<doc'']"
        and layer = "''<doc''" and ext = ext0] p(2) by simp
  ultimately show ?thesis using p n by simp
qed

section \<open>The centroid handler\<close>

lemma files_temp_dir:
  "files (snd (temp_dir ext body s)) p =
     (if p = mkdtemp ext (files s) \<or> prefix (mkdtemp ext (files s) @ ''/'') p then None
      else files (snd (body (mkdtemp ext (files s))
             (s\<lparr>files := (files s)(mkdtemp ext (files s) \<mapsto> Dir)\<rparr>))) p)"
  by (simp add: temp_dir_def Let_def rmtree_def split: prod.splits)

lemma ext0_simps:
  "mkdtemp ext0 fs = ''/tmp/tmpdemo''" "popen ext0 = popen0"
  "json_loads ext0 txt = (if txt = ''FC'' then Some fc0
                          else if txt = ''FC1'' then Some fc1 else None)"
  "shape ext0 g = (if g = poly0 then Inr g else Inl GeometryError)"
  "centroid ext0 g = point0" "mapping ext0 g = g"
  "uuid4 ext0 k = k" "host_url ext0 = ''http://localhost:5000''"
  by (simp_all add: ext0_def)


lemma tool_bad:
  "popen ext0 (ogr2ogr_argv (mkdtemp ext0 (files (init_state Map.empty))))
     (tool_filesystem ext0 ''not gml'' (init_state Map.empty))
   = Exited 1 []"
  by (simp add: ext0_simps popen0_def ogr2ogr_argv_def tool_filesystem_def write_bytes_def
      path_join_def init_state_def)

text \<open>
  Claim C5. Whatever the handler does, when it is over no path at or below the
  temporary directory it created exists. In particular, when the conversion tool exits
  with a status other than 0, the tool was started with the directory in place, the
  handler raises \<^verbatim>\<open>CalledProcessError\<close>, and the state it leaves has no such path.
\<close>

theorem temp_dir_removed_on_every_exit:
  "files (snd (centroids ext inputs s)) (mkdtemp ext (files s)) = None \<and>
   (\<forall>p. prefix (mkdtemp ext (files s) @ ''/'') p \<longrightarrow>
        files (snd (centroids ext inputs s)) p = None) \<and>
   (\<forall>layer rc written.
      inputs ''layer'' = Some layer \<longrightarrow>
      popen ext (ogr2ogr_argv (mkdtemp ext (files s))) (tool_filesystem ext layer s)
        = Exited rc written \<longrightarrow>
      rc \<noteq> 0 \<longrightarrow>
        tool_filesystem ext layer s (mkdtemp ext (files s)) = Some Dir \<and>
        fst (centroids ext inputs s) = Inl (CalledProcessError rc))"
proof (intro conjI allI impI)
  show "files (snd (centroids ext inputs s)) (mkdtemp ext (files s)) = None"
    by (simp add: centroids_def files_temp_dir)
next
  fix p assume "prefix (mkdtemp ext (files s) @ ''/'') p"
  then show "files (snd (centroids ext inputs s)) p = None"
    by (simp add: centroids_def files_temp_dir)
next
  fix layer :: string and rc :: int and written :: "(string \<times> string) list"
  show "tool_filesystem ext layer s (mkdtemp ext (files s)) = Some Dir"
    by (simp add: tool_filesystem_def write_bytes_def path_join_def)
next
  fix layer rc written
  assume "inputs ''layer'' = Some layer"
    "popen ext (ogr2ogr_argv (mkdtemp ext (files s))) (tool_filesystem ext layer s)
       = Exited rc written"
    "rc \<noteq> 0"
  then show "fst (centroids ext inputs s) = Inl (CalledProcessError rc)"
    by (simp add: centroids_def temp_dir_def centroids_body_def get_input_def check_call_def
        Let_def tool_filesystem_def)
qed

theorem temp_dir_removed_on_every_exit_witness:
  "files (snd (centroids ext0 bad_inputs (init_state Map.empty))) ''/tmp/tmpdemo'' = None \<and>
   files (snd (centroids ext0 bad_inputs (init_state Map.empty))) ''/tmp/tmpdemo/input.gml'' = None \<and>
   tool_filesystem ext0 ''not gml'' (init_state Map.empty) ''/tmp/tmpdemo'' = Some Dir \<and>
   fst (centroids ext0 bad_inputs (init_state Map.empty)) = Inl (CalledProcessError 1) \<and>
   files (snd (centroids ext0 good_inputs (init_state Map.empty))) ''/tmp/tmpdemo'' = None \<and>
   files (snd (centroids ext0 good_inputs (init_state Map.empty))) ''/tmp/tmpdemo/input.geojson'' = None"
proof -
  have h1: "bad_inputs ''layer'' = Some ''not gml''" by (simp add: bad_inputs_def)
  have p1: "prefix (mkdtemp ext0 (files (init_state Map.empty)) @ ''/'') ''/tmp/tmpdemo/input.gml''"
    by (simp add: ext0_simps)
  have p2: "prefix (mkdtemp ext0 (files (init_state Map.empty)) @ ''/'') ''/tmp/tmpdemo/input.geojson''"
    by (simp add: ext0_simps)
  note bad = temp_dir_removed_on_every_exit [of ext0 bad_inputs "init_state Map.empty"]
  note good = temp_dir_removed_on_every_exit [of ext0 good_inputs "init_state Map.empty"]
  from bad have b1: "files (snd (centroids ext0 bad_inputs (init_state Map.empty))) ''/tmp/tmpdemo'' = None"
    by (simp add: ext0_simps)
  from bad p1 have b2: "files (snd (centroids ext0 bad_inputs (init_state Map.empty))) ''/tmp/tmpdemo/input.gml'' = None"
    by blast
  from bad h1 tool_bad have b3:
    "tool_filesystem ext0 ''not gml'' (init_state Map.empty)
       (mkdtemp ext0 (files (init_state Map.empty))) = Some Dir \<and>
     fst (centroids ext0 bad_inputs (init_state Map.empty)) = Inl (CalledProcessError 1)"
    by (metis one_neq_zero)
  from good have g1: "files (snd (centroids ext0 good_inputs (init_state Map.empty))) ''/tmp/tmpdemo'' = None"
    by (simp add: ext0_simps)
  from good p2 have g2: "files (snd (centroids ext0 good_inputs (init_state Map.empty))) ''/tmp/tmpdemo/input.geojson'' = None"
    by blast
  show ?thesis using b1 b2 b3 g1 g2 by (simp add: ext0_simps)
qed

text \<open>
  Claim C6. When the conversion tool exits with a status other than 0, the handler
  raises \<^verbatim>\<open>CalledProcessError\<close> with that status instead of returning a response, and
  the deque holds what it held before.
\<close>

theorem tool_failure_aborts:
  assumes "inputs ''layer'' = Some layer"
    and "popen ext (ogr2ogr_argv (mkdtemp ext (files s))) (tool_filesystem ext layer s)
           = Exited rc written"
    and "rc \<noteq> 0"
  shows "fst (centroids ext inputs s) = Inl (CalledProcessError rc) \<and>
         recent_data_files (snd (centroids ext inputs s)) = recent_data_files s"
  using assms
  by (simp add: centroids_def temp_dir_def centroids_body_def get_input_def check_call_def
      Let_def tool_filesystem_def)

theorem tool_failure_aborts_witness:
  "bad_inputs ''layer'' = Some ''not gml'' \<and>
   popen ext0 (ogr2ogr_argv (mkdtemp ext0 (files (init_state Map.empty))))
     (tool_filesystem ext0 ''not gml'' (init_state Map.empty)) = Exited 1 [] \<and>
   (1::int) \<noteq> 0 \<and>
   fst (centroids ext0 bad_inputs (init_state Map.empty)) = Inl (CalledProcessError 1) \<and>
   recent_data_files (snd (centroids ext0 bad_inputs (init_state Map.empty))) = []"
proof -
  have h1: "bad_inputs ''layer'' = Some ''not gml''" by (simp add: bad_inputs_def)
  have h3: "(1::int) \<noteq> 0" by simp
  show ?thesis
    using tool_failure_aborts [where inputs = bad_inputs and ext = ext0
        and s = "init_state Map.empty", OF h1 tool_bad h3] h1 tool_bad
    by (simp add: init_state_def)
qed



















section \<open>What changes the cache\<close>

lemma centroids_cache:
  "recent_data_files (snd (centroids ext inputs s)) = recent_data_files s \<or>
   (\<exists>e. recent_data_files (snd (centroids ext inputs s))
          = deque_append maxlen (recent_data_files s) e)"
  by (auto simp: centroids_def temp_dir_def centroids_body_def check_call_def Let_def
      recent_data_files_append_def
      split: sum.splits option.splits prod.splits proc_outcome.splits if_splits)

text \<open>
  Claim C9. The lookup leaves the whole state, and so the deque, exactly as it was.
  Every operation of the application leaves the deque as it was or appends one entry
  to it, and an entry disappears only when that append finds the deque full: then the
  entry at the left end goes.
\<close>

theorem lookup_leaves_cache:
  "snd (datafile u s) = s \<and>
   state_after ext (Datafile u) s = s \<and>
   (\<forall>op. recent_data_files (state_after ext op s) = recent_data_files s \<or>
      (\<exists>e. length (recent_data_files s) < maxlen \<and>
            recent_data_files (state_after ext op s) = recent_data_files s @ [e]) \<or>
      (\<exists>e. maxlen \<le> length (recent_data_files s) \<and>
            recent_data_files (state_after ext op s) = tl (recent_data_files s) @ [e]))"
proof (intro conjI allI)
  show "snd (datafile u s) = s" by (simp add: datafile_def)
  show "state_after ext (Datafile u) s = s" by (simp add: datafile_def)
next
  fix op
  let ?c = "recent_data_files s"
  let ?c' = "recent_data_files (state_after ext op s)"
  have "?c' = ?c \<or> (\<exists>e. ?c' = deque_append maxlen ?c e)"
    using centroids_cache [of ext _ s] by (cases op) (simp_all add: datafile_def)
  moreover have "\<And>e. maxlen \<le> length ?c \<Longrightarrow> tl (?c @ [e]) = tl ?c @ [e]"
    by (cases ?c) (simp_all add: maxlen_def)
  ultimately show "?c' = ?c \<or> (\<exists>e. length ?c < maxlen \<and> ?c' = ?c @ [e]) \<or>
      (\<exists>e. maxlen \<le> length ?c \<and> ?c' = tl ?c @ [e])"
    by (auto simp: deque_append_eq not_less)
qed

theorem lookup_leaves_cache_witness:
  "snd (datafile ''5'' full_state) = full_state \<and>
   recent_data_files (state_after ext0 (Datafile ''5'') full_state) = map entry [0..<20]"
  using lookup_leaves_cache [of "''5''" full_state ext0]
  by (simp add: full_state_def)

section \<open>Identifiers in the states the application reaches\<close>

lemma set_deque_append: "set (deque_append n c e) \<subseteq> insert e (set c)"
proof (cases c)
  case Nil
  then show ?thesis by (simp add: deque_append_eq)
next
  case (Cons x xs)
  then show ?thesis by (auto simp: deque_append_eq)
qed

lemma centroids_step:
  "(recent_data_files (snd (centroids ext inputs s)) = recent_data_files s \<and>
    uuid_calls (snd (centroids ext inputs s)) = uuid_calls s) \<or>
   (\<exists>e. recent_data_files (snd (centroids ext inputs s))
            = deque_append maxlen (recent_data_files s) e \<and>
        uuid e = str_uuid (uuid4 ext (uuid_calls s)) \<and>
        uuid_calls (snd (centroids ext inputs s)) = Suc (uuid_calls s))"
  by (auto simp: centroids_def temp_dir_def centroids_body_def check_call_def Let_def
      recent_data_files_append_def
      split: sum.splits option.splits prod.splits proc_outcome.splits if_splits)

lemma state_after_drawn:
  assumes "\<forall>e \<in> set (recent_data_files s). \<exists>k<uuid_calls s. uuid e = str_uuid (uuid4 ext k)"
  shows "\<forall>e \<in> set (recent_data_files (state_after ext op s)).
           \<exists>k<uuid_calls (state_after ext op s). uuid e = str_uuid (uuid4 ext k)"
proof (cases op)
  case (Centroids inputs)
  let ?s' = "snd (centroids ext inputs s)"
  from centroids_step [of ext inputs s] show ?thesis
  proof (elim disjE exE conjE)
    assume "recent_data_files ?s' = recent_data_files s" "uuid_calls ?s' = uuid_calls s"
    then show ?thesis using assms Centroids by simp
  next
    fix e
    assume c: "recent_data_files ?s' = deque_append maxlen (recent_data_files s) e"
      and e: "uuid e = str_uuid (uuid4 ext (uuid_calls s))"
      and n: "uuid_calls ?s' = Suc (uuid_calls s)"
    have "\<exists>k<Suc (uuid_calls s). uuid x = str_uuid (uuid4 ext k)"
      if "x \<in> set (deque_append maxlen (recent_data_files s) e)" for x
    proof -
      from that set_deque_append [of maxlen "recent_data_files s" e]
      have "x = e \<or> x \<in> set (recent_data_files s)" by auto
      then show ?thesis
      proof
        assume "x = e"
        with e show ?thesis by auto
      next
        assume "x \<in> set (recent_data_files s)"
        with assms obtain k where "k < uuid_calls s" "uuid x = str_uuid (uuid4 ext k)" by blast
        then show ?thesis using less_Suc_eq by blast
      qed
    qed
    then show ?thesis using Centroids c n by simp
  qed
qed (use assms in \<open>simp_all add: datafile_def\<close>)

lemma run_operations_drawn:
  assumes "\<forall>e \<in> set (recent_data_files s). \<exists>k<uuid_calls s. uuid e = str_uuid (uuid4 ext k)"
  shows "\<forall>e \<in> set (recent_data_files (run_operations ext s ops)).
           \<exists>k<uuid_calls (run_operations ext s ops). uuid e = str_uuid (uuid4 ext k)"
  using assms
proof (induction ops arbitrary: s)
  case Nil
  then show ?case by (simp add: run_operations_def)
next
  case (Cons op ops)
  from Cons.IH [OF state_after_drawn [OF Cons.prems, of op]]
  show ?case by (simp add: run_operations_def)
qed

lemma last_str_uuid: "last (str_uuid n) = hex_char (n mod 16)"
proof -
  have "hex32 n \<noteq> []" "length (hex32 n) = 32" by (simp_all add: hex32_def)
  moreover have "last (hex32 n) = hex_char (n mod 16)"
    by (simp add: hex32_def last_map)
  ultimately show ?thesis by (simp add: str_uuid_def Let_def)
qed

text \<open>
  When the identifiers drawn so far and the one to be drawn next are pairwise
  different, no entry of the deque carries the next one, in every state the
  application reaches from its initial state.
\<close>

theorem identifier_fresh_when_draws_differ:
  assumes "s = run_operations ext (init_state fs) ops"
    and "distinct (map (\<lambda>k. str_uuid (uuid4 ext k)) [0..<Suc (uuid_calls s)])"
  shows "str_uuid (uuid4 ext (uuid_calls s)) \<notin> uuid ` set (recent_data_files s)"
proof
  assume "str_uuid (uuid4 ext (uuid_calls s)) \<in> uuid ` set (recent_data_files s)"
  then obtain e where e: "e \<in> set (recent_data_files s)"
    "uuid e = str_uuid (uuid4 ext (uuid_calls s))" by auto
  have "\<forall>e \<in> set (recent_data_files (init_state fs)).
      \<exists>k<uuid_calls (init_state fs). uuid e = str_uuid (uuid4 ext k)"
    by (simp add: init_state_def)
  from run_operations_drawn [OF this, of ops] e(1) assms(1)
  obtain k where k: "k < uuid_calls s" "uuid e = str_uuid (uuid4 ext k)" by blast
  have "inj_on (\<lambda>k. str_uuid (uuid4 ext k)) (set [0..<Suc (uuid_calls s)])"
    using assms(2) by (simp only: distinct_map)
  moreover have "k \<in> set [0..<Suc (uuid_calls s)]" "uuid_calls s \<in> set [0..<Suc (uuid_calls s)]"
    using k(1) by simp_all
  moreover have "str_uuid (uuid4 ext k) = str_uuid (uuid4 ext (uuid_calls s))"
    using k(2) e(2) by simp
  ultimately have "k = uuid_calls s" by (meson inj_onD)
  with k(1) show False by simp
qed

theorem identifier_fresh_when_draws_differ_witness:
  "uuid_calls (run_operations ext0 (init_state Map.empty) [Centroids good_inputs, Datafile ''x'']) = 1 \<and>
   str_uuid 1 \<noteq> str_uuid 0 \<and>
   str_uuid 1 \<notin> uuid ` set (recent_data_files
      (run_operations ext0 (init_state Map.empty) [Centroids good_inputs, Datafile ''x'']))"
proof -
  let ?s = "run_operations ext0 (init_state Map.empty) [Centroids good_inputs, Datafile ''x'']"
  have n: "uuid_calls ?s = 1"
    by (simp add: run_operations_def datafile_def centroids_def temp_dir_def centroids_body_def
        get_input_def check_call_def Let_def good_inputs_def init_state_def ext0_simps popen0_def
        ogr2ogr_argv_def path_join_def write_bytes_def read_text_def centroids_loop_def
        centroid_feature_def fc0_def feat0_def recent_data_files_append_def)
  have "last (str_uuid 1) \<noteq> last (str_uuid 0)"
    by (simp add: last_str_uuid hex_char_def)
  then have d: "str_uuid 1 \<noteq> str_uuid 0" by auto
  have "distinct (map (\<lambda>k. str_uuid (uuid4 ext0 k)) [0..<Suc (uuid_calls ?s)])"
    using d by (simp add: n ext0_simps upt_rec)
  from identifier_fresh_when_draws_differ [OF refl this]
  show ?thesis using n d by (simp add: ext0_simps)
qed

end
